theory Spec2Isabelle
  imports Main
begin

section \<open>Data model\<close>

text \<open>
  Values produced by Python's JSON parser. A \<open>dict\<close> is an association list in insertion
  order (the parser keeps the last binding of a repeated key, so keys are distinct in parsed
  values; lookups below take the first binding). A float is kept as mantissa and exponent;
  no function of the bridge computes with it.
\<close>

datatype json =
    JNull
  | JBool bool
  | JInt int
  | JFloat int int
  | JStr string
  | JList "json list"
  | JObj "(string \<times> json) list"

text \<open>
  Exceptions that the modelled code raises or lets through.
  \<^item> \<open>HTTPException status detail\<close>: \<open>fastapi.HTTPException(status_code, detail)\<close>;
  \<^item> \<open>PyException msg\<close>: \<open>Exception(msg)\<close>, raised by \<open>_send_request\<close>;
  \<^item> \<open>HTTPStatusError status text\<close>: raised by \<open>response.raise_for_status()\<close>, holding the
    response (its status code and body text);
  \<^item> \<open>JSONDecodeError\<close>: raised by \<open>response.json()\<close> and \<open>json.loads\<close> on text that is not JSON;
  \<^item> \<open>UnicodeDecodeError\<close>: raised by \<open>json.loads\<close> on bytes that do not decode;
  \<^item> \<open>TypeError\<close>, \<open>AttributeError\<close>: raised by \<open>in\<close>, indexing and \<open>.get\<close> on a parsed value
    that is not a \<open>dict\<close>;
  \<^item> \<open>TransportError msg\<close>: raised by \<open>httpx\<close> when the POST itself fails (refused, timeout);
  \<^item> \<open>ClientInitError msg\<close>: raised by the construction of \<open>httpx.AsyncClient\<close>;
  \<^item> \<open>ValidationError\<close>: raised by \<open>pydantic\<close> when a response model refuses its fields;
  \<^item> \<open>RequestValidationError\<close>: raised by FastAPI when the body of a request is not JSON or
    does not fit the request model.
\<close>

datatype exn =
    HTTPException nat string
  | PyException string
  | HTTPStatusError nat string
  | JSONDecodeError
  | UnicodeDecodeError
  | TypeError
  | AttributeError
  | TransportError string
  | ClientInitError string
  | ValidationError
  | RequestValidationError

text \<open>The fields of \<open>config.Settings\<close> that the modelled code reads.\<close>

record settings =
  splunk_mcp_server_url :: string
  splunk_mcp_auth_token :: string
  splunk_mcp_server_timeout :: int
  splunk_mcp_server_verify_ssl :: bool
  bridge_api_key :: "string option"
  bridge_log_payloads :: bool

section \<open>Auth gate (auth\_middleware.py)\<close>

text \<open>
  Python's \<open>not configured_key\<close> on an \<open>Optional[str]\<close>: true for \<open>None\<close> and for the empty
  string.
\<close>

fun not_str_opt :: "string option \<Rightarrow> bool" where
  "not_str_opt None = True"
| "not_str_opt (Some s) = (s = [])"

definition HTTP_403_FORBIDDEN :: nat where
  "HTTP_403_FORBIDDEN = 403"

text \<open>
  \<open>get_api_key\<close>. The argument is the value of the \<open>X-API-Key\<close> header as
  \<open>APIKeyHeader(auto_error=False)\<close> hands it over: \<open>None\<close> when the header is absent.
\<close>

definition get_api_key :: "settings \<Rightarrow> string option \<Rightarrow> exn + string option" where
  "get_api_key cfg api_key_header =
     (let configured_key = bridge_api_key cfg in
      if not_str_opt configured_key then Inr api_key_header
      else if api_key_header = configured_key then Inr api_key_header
      else Inl (HTTPException HTTP_403_FORBIDDEN ''Could not validate credentials''))"

text \<open>A request is admitted when the gate returns instead of raising.\<close>

definition admitted :: "settings \<Rightarrow> string option \<Rightarrow> bool" where
  "admitted cfg h = (case get_api_key cfg h of Inl e \<Rightarrow> False | Inr r \<Rightarrow> True)"

text \<open>
  No API key is configured: the setting is unset or empty, which is what the gate's test
  \<open>not configured_key\<close> accepts.
\<close>

definition no_key_configured :: "settings \<Rightarrow> bool" where
  "no_key_configured cfg = (bridge_api_key cfg = None \<or> bridge_api_key cfg = Some [])"

section \<open>Upstream client (mcp\_client.py)\<close>

type_synonym bytes = string

text \<open>
  \<open>httpx.AsyncClient\<close> as the arguments it is constructed with, and \<open>httpx.Response\<close> as the
  three things the client reads from it: the status code, the raw content, and \<open>response.text\<close>
  (the content as \<open>httpx\<close> decodes it, which never raises).
\<close>

record http_client =
  base_url :: string
  client_timeout :: int
  client_headers :: "(string \<times> string) list"
  verify :: bool

record httpx_response =
  status_code :: nat
  resp_content :: bytes
  resp_text :: string

text \<open>
  What the program calls and does not define, taken as parameters:
  \<^item> \<open>json_loads\<close>: \<open>json.loads\<close> on bytes, also behind \<open>response.json()\<close>; it returns the parsed
    value or raises;
  \<^item> \<open>py_str\<close>: \<open>str()\<close> of a parsed value, as an f-string formats it;
  \<^item> \<open>exc_str\<close>: \<open>str(e)\<close> of an exception that a library raised;
  \<^item> \<open>client_init\<close>: the exception, if any, that constructing \<open>httpx.AsyncClient\<close> with these
    arguments raises;
  \<^item> \<open>post\<close>: the exchange \<open>client.post("/", json=payload)\<close> with the upstream server: its
    response, or the exception of a failed exchange;
  \<^item> \<open>coerce_bool\<close>: how \<open>pydantic\<close> validates a value that is not a \<open>bool\<close> for a \<open>bool\<close>
    field (\<open>None\<close>: it is refused);
  \<^item> \<open>valid_resource_content\<close>: whether \<open>pydantic\<close> accepts a value as a \<open>ResourceContent\<close>;
  \<^item> \<open>json_content_type\<close>: whether FastAPI takes a \<open>Content-Type\<close> value for JSON (main type
    \<open>application\<close>, subtype \<open>json\<close> or ending in \<open>+json\<close>).
\<close>

record env =
  json_loads :: "bytes \<Rightarrow> exn + json"
  py_str :: "json \<Rightarrow> string"
  exc_str :: "exn \<Rightarrow> string"
  client_init :: "http_client \<Rightarrow> exn option"
  post :: "http_client \<Rightarrow> json \<Rightarrow> exn + httpx_response"
  coerce_bool :: "json \<Rightarrow> bool option"
  valid_resource_content :: "json \<Rightarrow> bool"
  json_content_type :: "string \<Rightarrow> bool"

text \<open>
  The mutable state: the fields of the global \<open>MCPClient\<close> instance, the payloads handed to
  \<open>post\<close> so far (\<open>posted\<close>), and the bodies that the audit interceptor has read into memory
  so far (\<open>buffered\<close>).
\<close>

record state =
  server_url :: string
  auth_token :: string
  timeout :: int
  http_client :: "http_client option"
  posted :: "json list"
  buffered :: "bytes list"

text \<open>\<open>MCPClient.__init__\<close>, with empty traces.\<close>

definition MCPClient_init :: "settings \<Rightarrow> state" where
  "MCPClient_init cfg =
     \<lparr>server_url = splunk_mcp_server_url cfg,
      auth_token = splunk_mcp_auth_token cfg,
      timeout = splunk_mcp_server_timeout cfg,
      http_client = None, posted = [], buffered = []\<rparr>"

text \<open>\<open>MCPClient.connect\<close>: the \<open>except\<close> clause logs and re-raises.\<close>

definition connect :: "env \<Rightarrow> settings \<Rightarrow> state \<Rightarrow> (exn + unit) \<times> state" where
  "connect ev cfg st =
     (let headers = (if auth_token st \<noteq> []
                     then [(''Authorization'', ''Bearer '' @ auth_token st)] else []);
          verify_ssl = splunk_mcp_server_verify_ssl cfg;
          c = \<lparr>base_url = server_url st, client_timeout = timeout st,
               client_headers = headers, verify = verify_ssl\<rparr>
      in case client_init ev c of
           Some e \<Rightarrow> (Inl e, st)
         | None \<Rightarrow> (Inr (), st\<lparr>http_client := Some c\<rparr>))"

text \<open>\<open>MCPClient.disconnect\<close>.\<close>

definition disconnect :: "state \<Rightarrow> state" where
  "disconnect st = (case http_client st of None \<Rightarrow> st | Some c \<Rightarrow> st\<lparr>http_client := None\<rparr>)"

text \<open>The envelope built in \<open>_send_request\<close>.\<close>

definition payload_of :: "string \<Rightarrow> json \<Rightarrow> int \<Rightarrow> json" where
  "payload_of method params request_id =
     JObj [(''jsonrpc'', JStr ''2.0''), (''id'', JInt request_id),
           (''method'', JStr method), (''params'', params)]"

text \<open>
  The \<open>result\<close> variable of \<open>_send_request\<close>: with payload logging on, a failure of
  \<open>response.json()\<close> is caught and replaced by a synthesized mapping; with it off,
  \<open>response.json()\<close> is called bare and its exception leaves the function.
\<close>

definition parse_result :: "env \<Rightarrow> settings \<Rightarrow> httpx_response \<Rightarrow> exn + json" where
  "parse_result ev cfg response =
     (if bridge_log_payloads cfg then
        (case json_loads ev (resp_content response) of
           Inr result \<Rightarrow> Inr result
         | Inl e \<Rightarrow> Inr (JObj [(''error'', JStr ''Non-JSON response from Splunk''),
                                (''raw'', JStr (resp_text response))]))
      else json_loads ev (resp_content response))"

text \<open>
  \<open>httpx.Response.raise_for_status\<close>: returns for a 2xx status and raises \<open>HTTPStatusError\<close>,
  which holds the response, for any other.
\<close>

definition is_success :: "nat \<Rightarrow> bool" where
  "is_success s = (200 \<le> s \<and> s \<le> 299)"

definition raise_for_status :: "httpx_response \<Rightarrow> exn + unit" where
  "raise_for_status response =
     (if is_success (status_code response) then Inr ()
      else Inl (HTTPStatusError (status_code response) (resp_text response)))"

text \<open>Python's \<open>sub in s\<close> on strings.\<close>

fun str_contains :: "string \<Rightarrow> string \<Rightarrow> bool" where
  "str_contains [] sub = (sub = [])"
| "str_contains (c # cs) sub = (take (length sub) (c # cs) = sub \<or> str_contains cs sub)"

text \<open>
  \<open>key in v\<close>, \<open>v[key]\<close> and \<open>v.get(key, default)\<close> for a string key on a parsed value.
  Only a \<open>dict\<close> supports all three; a list or a string supports \<open>in\<close> and then refuses the
  string index.
\<close>

fun py_in :: "string \<Rightarrow> json \<Rightarrow> exn + bool" where
  "py_in k (JObj kvs) = Inr (k \<in> set (map fst kvs))"
| "py_in k (JList xs) = Inr (JStr k \<in> set xs)"
| "py_in k (JStr s) = Inr (str_contains s k)"
| "py_in k v = Inl TypeError"

fun py_getitem :: "json \<Rightarrow> string \<Rightarrow> exn + json" where
  "py_getitem (JObj kvs) k = (case map_of kvs k of Some v \<Rightarrow> Inr v | None \<Rightarrow> Inl (PyException k))"
| "py_getitem v k = Inl TypeError"

fun py_get :: "json \<Rightarrow> string \<Rightarrow> json \<Rightarrow> exn + json" where
  "py_get (JObj kvs) k d = Inr (case map_of kvs k of Some v \<Rightarrow> v | None \<Rightarrow> d)"
| "py_get v k d = Inl AttributeError"

text \<open>Lines 100 to 103 of \<open>_send_request\<close>: the \<open>error\<close> test, then the \<open>result\<close> field.\<close>

definition unwrap_result :: "env \<Rightarrow> json \<Rightarrow> exn + json" where
  "unwrap_result ev result =
     (case py_in ''error'' result of
        Inl e \<Rightarrow> Inl e
      | Inr True \<Rightarrow>
          (case py_getitem result ''error'' of
             Inl e \<Rightarrow> Inl e
           | Inr err \<Rightarrow> Inl (PyException (''MCP error: '' @ py_str ev err)))
      | Inr False \<Rightarrow> py_get result ''result'' (JObj []))"

text \<open>The first statement of \<open>_send_request\<close>: \<open>if not self._http_client: await self.connect()\<close>.\<close>

definition ensure_client :: "env \<Rightarrow> settings \<Rightarrow> state \<Rightarrow> (exn + unit) \<times> state" where
  "ensure_client ev cfg st = (if http_client st = None then connect ev cfg st else (Inr (), st))"

text \<open>
  \<open>MCPClient._send_request\<close>. The two \<open>logger.info\<close> calls of the logging branch write to the
  log only and are left out; what the branch changes in the control flow is in
  \<open>parse_result\<close>.
\<close>

definition send_request ::
  "env \<Rightarrow> settings \<Rightarrow> string \<Rightarrow> json \<Rightarrow> int \<Rightarrow> state \<Rightarrow> (exn + json) \<times> state" where
  "send_request ev cfg method params request_id st =
     (case ensure_client ev cfg st of
        (Inl e, st1) \<Rightarrow> (Inl e, st1)
      | (Inr u, st1) \<Rightarrow>
          (case http_client st1 of
             None \<Rightarrow> (Inl AttributeError, st1)
           | Some c \<Rightarrow>
               (let payload = payload_of method params request_id;
                    st2 = st1\<lparr>posted := posted st1 @ [payload]\<rparr>
                in case post ev c payload of
                     Inl e \<Rightarrow> (Inl e, st2)
                   | Inr response \<Rightarrow>
                       (case parse_result ev cfg response of
                          Inl e \<Rightarrow> (Inl e, st2)
                        | Inr result \<Rightarrow>
                            (case raise_for_status response of
                               Inl e \<Rightarrow> (Inl e, st2)
                             | Inr u' \<Rightarrow> (unwrap_result ev result, st2))))))"

text \<open>
  \<open>len(v)\<close> succeeds on a \<open>dict\<close>, a list and a string, and raises \<open>TypeError\<close> on the other
  parsed values.
\<close>

fun py_len :: "json \<Rightarrow> exn + nat" where
  "py_len (JObj kvs) = Inr (length kvs)"
| "py_len (JList xs) = Inr (length xs)"
| "py_len (JStr s) = Inr (length s)"
| "py_len v = Inl TypeError"

text \<open>
  The wrappers. Each \<open>except\<close> clause logs and re-raises, so an exception passes through
  unchanged. \<open>list_tools\<close> formats \<open>len(tools)\<close> into a log line inside its \<open>try\<close>.
\<close>

definition list_tools :: "env \<Rightarrow> settings \<Rightarrow> state \<Rightarrow> (exn + json) \<times> state" where
  "list_tools ev cfg st =
     (case send_request ev cfg ''tools/list'' (JObj []) 1 st of
        (Inl e, st1) \<Rightarrow> (Inl e, st1)
      | (Inr result, st1) \<Rightarrow>
          (case py_get result ''tools'' (JList []) of
             Inl e \<Rightarrow> (Inl e, st1)
           | Inr tools \<Rightarrow>
               (case py_len tools of
                  Inl e \<Rightarrow> (Inl e, st1)
                | Inr n \<Rightarrow> (Inr tools, st1))))"

definition call_tool :: "env \<Rightarrow> settings \<Rightarrow> string \<Rightarrow> json \<Rightarrow> state \<Rightarrow> (exn + json) \<times> state" where
  "call_tool ev cfg tool_name arguments st =
     send_request ev cfg ''tools/call''
       (JObj [(''name'', JStr tool_name), (''arguments'', arguments)]) 2 st"

definition read_resource :: "env \<Rightarrow> settings \<Rightarrow> string \<Rightarrow> state \<Rightarrow> (exn + json) \<times> state" where
  "read_resource ev cfg uri st =
     send_request ev cfg ''resources/read'' (JObj [(''uri'', JStr uri)]) 4 st"

text \<open>The defaults of \<open>config.Settings\<close>.\<close>

definition default_settings :: settings where
  "default_settings =
     \<lparr>splunk_mcp_server_url = ''http://localhost:3001/mcp'',
      splunk_mcp_auth_token = [],
      splunk_mcp_server_timeout = 30,
      splunk_mcp_server_verify_ssl = True,
      bridge_api_key = None,
      bridge_log_payloads = False\<rparr>"

section \<open>REST handlers (routers/tools.py, routers/resources.py, main.py)\<close>

text \<open>\<open>str(e)\<close>: the message of an \<open>Exception(msg)\<close> is \<open>msg\<close>; a library's exception has its own.\<close>

fun str_exc :: "env \<Rightarrow> exn \<Rightarrow> string" where
  "str_exc ev (PyException msg) = msg"
| "str_exc ev e = exc_str ev e"

definition HTTP_502_BAD_GATEWAY :: nat where
  "HTTP_502_BAD_GATEWAY = 502"

record ToolExecutionRequest =
  arguments :: "(string \<times> json) list"

record ToolExecutionResponse =
  content :: "json list"
  isError :: bool

record ResourceReadResponse =
  contents :: "json list"

fun is_dict :: "json \<Rightarrow> bool" where
  "is_dict (JObj kvs) = True"
| "is_dict v = False"

text \<open>
  The construction of the response models, which \<open>pydantic\<close> validates: \<open>content\<close> is a list of
  mappings and \<open>isError\<close> a \<open>bool\<close>; \<open>contents\<close> is a list of \<open>ResourceContent\<close>.
\<close>

fun validate_bool :: "env \<Rightarrow> json \<Rightarrow> exn + bool" where
  "validate_bool ev (JBool b) = Inr b"
| "validate_bool ev v = (case coerce_bool ev v of Some b \<Rightarrow> Inr b | None \<Rightarrow> Inl ValidationError)"

fun validate_dict_list :: "json \<Rightarrow> exn + json list" where
  "validate_dict_list (JList xs) = (if list_all is_dict xs then Inr xs else Inl ValidationError)"
| "validate_dict_list v = Inl ValidationError"

definition new_ToolExecutionResponse :: "env \<Rightarrow> json \<Rightarrow> json \<Rightarrow> exn + ToolExecutionResponse" where
  "new_ToolExecutionResponse ev c e =
     (case validate_dict_list c of
        Inl x \<Rightarrow> Inl x
      | Inr xs \<Rightarrow>
          (case validate_bool ev e of
             Inl x \<Rightarrow> Inl x
           | Inr b \<Rightarrow> Inr \<lparr>content = xs, isError = b\<rparr>))"

fun new_ResourceReadResponse :: "env \<Rightarrow> json \<Rightarrow> exn + ResourceReadResponse" where
  "new_ResourceReadResponse ev (JList xs) =
     (if list_all (valid_resource_content ev) xs then Inr \<lparr>contents = xs\<rparr>
      else Inl ValidationError)"
| "new_ResourceReadResponse ev v = Inl ValidationError"

text \<open>
  \<open>execute_tool\<close> (tools.py). Its \<open>except Exception\<close> turns every exception of the body into
  the 502 failure.
\<close>

definition execute_tool_body ::
  "env \<Rightarrow> settings \<Rightarrow> string \<Rightarrow> ToolExecutionRequest \<Rightarrow> state
     \<Rightarrow> (exn + ToolExecutionResponse) \<times> state" where
  "execute_tool_body ev cfg tool_name request st =
     (case call_tool ev cfg tool_name (JObj (arguments request)) st of
        (Inl e, st1) \<Rightarrow> (Inl e, st1)
      | (Inr result, st1) \<Rightarrow>
          (case py_get result ''content'' (JList []) of
             Inl e \<Rightarrow> (Inl e, st1)
           | Inr c \<Rightarrow>
               (case py_get result ''isError'' (JBool False) of
                  Inl e \<Rightarrow> (Inl e, st1)
                | Inr is_error \<Rightarrow> (new_ToolExecutionResponse ev c is_error, st1))))"

definition execute_tool ::
  "env \<Rightarrow> settings \<Rightarrow> string \<Rightarrow> ToolExecutionRequest \<Rightarrow> state
     \<Rightarrow> (exn + ToolExecutionResponse) \<times> state" where
  "execute_tool ev cfg tool_name request st =
     (case execute_tool_body ev cfg tool_name request st of
        (Inl e, st1) \<Rightarrow>
          (Inl (HTTPException HTTP_502_BAD_GATEWAY
                  (''Failed to execute tool on MCP server: '' @ str_exc ev e)), st1)
      | (Inr r, st1) \<Rightarrow> (Inr r, st1))"

text \<open>\<open>read_resource\<close> of resources.py, the handler of the resource-read route.\<close>

definition read_resource_route ::
  "env \<Rightarrow> settings \<Rightarrow> string \<Rightarrow> state \<Rightarrow> (exn + ResourceReadResponse) \<times> state" where
  "read_resource_route ev cfg uri st =
     (case (case read_resource ev cfg uri st of
              (Inl e, st1) \<Rightarrow> (Inl e, st1)
            | (Inr result, st1) \<Rightarrow>
                (case py_get result ''contents'' (JList []) of
                   Inl e \<Rightarrow> (Inl e, st1)
                 | Inr cs \<Rightarrow> (new_ResourceReadResponse ev cs, st1))) of
        (Inl e, st1) \<Rightarrow>
          (Inl (HTTPException HTTP_502_BAD_GATEWAY
                  (''Failed to read resource from MCP server: '' @ str_exc ev e)), st1)
      | (Inr r, st1) \<Rightarrow> (Inr r, st1))"

text \<open>
  The route of \<open>execute_tool\<close>: \<open>APIRouter(prefix="/api/tools")\<close> and
  \<open>@router.post("/{tool_name}")\<close>. The path parameter is one non-empty segment without a
  slash.
\<close>

definition tools_prefix :: string where
  "tools_prefix = ''/api/tools''"

definition match_execute_tool :: "string \<Rightarrow> string option" where
  "match_execute_tool path =
     (let pre = tools_prefix @ ''/''; name = drop (length pre) path
      in if take (length pre) path = pre \<and> name \<noteq> [] \<and> CHR ''/'' \<notin> set name
         then Some name else None)"

text \<open>\<open>health_check\<close> (main.py).\<close>

definition health_check :: "env \<Rightarrow> settings \<Rightarrow> state \<Rightarrow> (exn + json) \<times> state" where
  "health_check ev cfg st =
     (case list_tools ev cfg st of
        (Inr tools, st1) \<Rightarrow>
          (Inr (JObj [(''status'', JStr ''healthy''), (''mcp_connection'', JStr ''connected'')]), st1)
      | (Inl e, st1) \<Rightarrow>
          (Inr (JObj [(''status'', JStr ''degraded''), (''mcp_connection'', JStr ''disconnected''),
                      (''error'', JStr (str_exc ev e))]), st1))"

section \<open>Audit interceptor (logging\_middleware.py)\<close>

text \<open>
  A request with its body as the stream of chunks that \<open>receive\<close> still has to hand out, and
  a response with its body as the chunks of \<open>body_iterator\<close>.
\<close>

record request =
  req_method :: string
  req_path :: string
  req_headers :: "(string \<times> string) list"
  receive :: "bytes list"

record response =
  resp_status_code :: nat
  resp_headers :: "(string \<times> string) list"
  body_iterator :: "bytes list"

text \<open>
  The two \<open>try\<close> blocks that format a body for the log line: \<open>json.loads\<close> runs on a non-empty
  body, and the \<open>except\<close> clause catches \<open>json.JSONDecodeError\<close> only.
\<close>

definition log_format :: "env \<Rightarrow> bytes \<Rightarrow> exn + unit" where
  "log_format ev body =
     (if body = [] then Inr ()
      else (case json_loads ev body of
              Inr v \<Rightarrow> Inr ()
            | Inl JSONDecodeError \<Rightarrow> Inr ()
            | Inl e \<Rightarrow> Inl e))"

text \<open>
  \<open>RequestLoggingMiddleware.dispatch\<close>. \<open>call_next\<close> is the rest of the application. The text
  of the log lines is not modelled; each body that is read into memory is recorded in
  \<open>buffered\<close>.
\<close>

definition dispatch ::
  "env \<Rightarrow> settings \<Rightarrow> (request \<Rightarrow> state \<Rightarrow> (exn + response) \<times> state) \<Rightarrow> request \<Rightarrow> state
     \<Rightarrow> (exn + response) \<times> state" where
  "dispatch ev cfg call_next req st =
     (if \<not> bridge_log_payloads cfg then call_next req st
      else
        (let body = concat (receive req);
             st1 = st\<lparr>buffered := buffered st @ [body]\<rparr>;
             req1 = req\<lparr>receive := [body]\<rparr>
         in case log_format ev body of
              Inl e \<Rightarrow> (Inl e, st1)
            | Inr u \<Rightarrow>
                (case call_next req1 st1 of
                   (Inl e, st2) \<Rightarrow> (Inl e, st2)
                 | (Inr resp, st2) \<Rightarrow>
                     (let response_body = concat (body_iterator resp);
                          st3 = st2\<lparr>buffered := buffered st2 @ [response_body]\<rparr>;
                          resp1 = resp\<lparr>body_iterator := [response_body]\<rparr>
                      in case log_format ev response_body of
                           Inl e \<Rightarrow> (Inl e, st3)
                         | Inr u' \<Rightarrow> (Inr resp1, st3)))))"

section \<open>Application wiring (main.py)\<close>

text \<open>
  The value that \<open>APIKeyHeader(name="X-API-Key", auto_error=False)\<close> hands to the gate: the
  header's value, and \<open>None\<close> when the header is absent or empty. Header names reach the
  application in lower case.
\<close>

definition api_key_header :: "request \<Rightarrow> string option" where
  "api_key_header req =
     (case map_of (req_headers req) ''x-api-key'' of
        None \<Rightarrow> None
      | Some v \<Rightarrow> (if v = [] then None else Some v))"

text \<open>
  What FastAPI's request handler does for a route that declares a body parameter, before it
  solves the dependencies: it reads the whole body and, unless the body is empty or the
  \<open>Content-Type\<close> names something other than JSON, parses it with \<open>json.loads\<close>. A
  \<open>JSONDecodeError\<close> becomes a \<open>RequestValidationError\<close>, an \<open>HTTPException\<close> is raised again,
  and any other exception becomes \<open>HTTPException(400)\<close>.
\<close>

datatype request_body = NoBody | JsonBody json | RawBody bytes

definition parse_request_body :: "env \<Rightarrow> request \<Rightarrow> exn + request_body" where
  "parse_request_body ev req =
     (let body_bytes = concat (receive req) in
      if body_bytes = [] then Inr NoBody
      else if (case map_of (req_headers req) ''content-type'' of
                 None \<Rightarrow> True
               | Some ct \<Rightarrow> ct = [] \<or> json_content_type ev ct)
      then (case json_loads ev body_bytes of
              Inr v \<Rightarrow> Inr (JsonBody v)
            | Inl JSONDecodeError \<Rightarrow> Inl RequestValidationError
            | Inl (HTTPException s d) \<Rightarrow> Inl (HTTPException s d)
            | Inl e \<Rightarrow> Inl (HTTPException 400 ''There was an error parsing the body''))
      else Inr (RawBody body_bytes))"

text \<open>
  A route of \<open>tools_router\<close> or \<open>resources_router\<close>, both included with
  \<open>dependencies=[Depends(get_api_key)]\<close>. \<open>has_body\<close> tells whether the route declares a body
  parameter (the tool route does, the GET routes do not). The body, if declared, is read and
  parsed first; then the gate runs; the endpoint, which receives the parsed body, runs only
  when the gate returns.
\<close>

definition gated_route ::
  "env \<Rightarrow> settings \<Rightarrow> bool \<Rightarrow> (request_body \<Rightarrow> request \<Rightarrow> state \<Rightarrow> (exn + 'a) \<times> state)
     \<Rightarrow> request \<Rightarrow> state \<Rightarrow> (exn + 'a) \<times> state" where
  "gated_route ev cfg has_body endpoint req st =
     (case (if has_body then parse_request_body ev req else Inr NoBody) of
        Inl e \<Rightarrow> (Inl e, st)
      | Inr body \<Rightarrow>
          (case get_api_key cfg (api_key_header req) of
             Inl e \<Rightarrow> (Inl e, st)
           | Inr k \<Rightarrow> endpoint body req st))"




text \<open>
  The body parameter \<open>request: ToolExecutionRequest\<close>: the body must be a JSON mapping, and
  \<open>arguments\<close>, when present, a mapping; it defaults to the empty one.
\<close>

fun new_ToolExecutionRequest :: "request_body \<Rightarrow> exn + ToolExecutionRequest" where
  "new_ToolExecutionRequest (JsonBody (JObj kvs)) =
     (case map_of kvs ''arguments'' of
        None \<Rightarrow> Inr \<lparr>arguments = []\<rparr>
      | Some (JObj a) \<Rightarrow> Inr \<lparr>arguments = a\<rparr>
      | Some v \<Rightarrow> Inl RequestValidationError)"
| "new_ToolExecutionRequest b = Inl RequestValidationError"

text \<open>
  A request to the tool route, from the router to the return of \<open>execute_tool\<close>: \<open>None\<close> when
  the route does not match (the method is not POST or the path is not under the prefix), so
  that nothing of the route runs; otherwise the body is parsed, the gate runs, the body is
  validated, and \<open>execute_tool\<close> is called with the path parameter.
\<close>

definition route_execute_tool ::
  "env \<Rightarrow> settings \<Rightarrow> request \<Rightarrow> state \<Rightarrow> ((exn + ToolExecutionResponse) \<times> state) option" where
  "route_execute_tool ev cfg req st =
     (if req_method req \<noteq> ''POST'' then None
      else (case match_execute_tool (req_path req) of
              None \<Rightarrow> None
            | Some tool_name \<Rightarrow>
                Some (gated_route ev cfg True
                        (\<lambda>body rq s.
                           (case new_ToolExecutionRequest body of
                              Inl e \<Rightarrow> (Inl e, s)
                            | Inr request \<Rightarrow> execute_tool ev cfg tool_name request s))
                        req st)))"

section \<open>A test double for the upstream\<close>

text \<open>
  An environment in which every POST is answered with \<open>reply\<close>, \<open>json.loads\<close> of the reply's
  content is \<open>parsed\<close> and of the single byte \<open>0xFF\<close> is a \<open>UnicodeDecodeError\<close> (the byte
  starts no UTF-8 sequence), and the client can always be constructed. The theorems about
  concrete exchanges are stated in it.
\<close>

definition stub_env :: "httpx_response \<Rightarrow> exn + json \<Rightarrow> env" where
  "stub_env reply parsed =
     \<lparr>json_loads = (\<lambda>b. if b = resp_content reply then parsed
                         else if b = [CHR 0xFF] then Inl UnicodeDecodeError
                         else Inl JSONDecodeError),
      py_str = (\<lambda>v. ''<value>''),
      exc_str = (\<lambda>e. ''<error>''),
      client_init = (\<lambda>c. None),
      post = (\<lambda>c p. Inr reply),
      coerce_bool = (\<lambda>v. None),
      valid_resource_content = is_dict,
      json_content_type = (\<lambda>ct. ct = ''application/json'')\<rparr>"

text \<open>The reply \<open>{"error": {"code": -32601, "message": "method not found"}}\<close>, parsed.\<close>

definition method_not_found :: json where
  "method_not_found =
     JObj [(''error'', JObj [(''code'', JInt (- 32601)), (''message'', JStr ''method not found'')])]"

text \<open>The text of that reply, an HTML error page, and the settings with payload logging on.\<close>

definition method_not_found_text :: bytes where
  \<open>method_not_found_text = ''{"error": {"code": -32601, "message": "method not found"}}''\<close>

definition html_text :: bytes where
  "html_text = ''<html>Bad Gateway</html>''"

definition logging_on :: settings where
  "logging_on = default_settings\<lparr>bridge_log_payloads := True\<rparr>"

text \<open>
  Test doubles for the rest of the application: an endpoint that answers 200 with a body in
  two chunks, and an exception handler that answers with the status of the \<open>HTTPException\<close>
  and its detail as the body, and with 422 to a \<open>RequestValidationError\<close>. Two requests: one whose body is the single byte \<open>0xFF\<close>, and
  one to the tool route with a wrong API key.
\<close>

definition ok_response :: response where
  \<open>ok_response =
     \<lparr>resp_status_code = 200, resp_headers = [(''content-type'', ''application/json'')],
      body_iterator = [''{"status":'', '' "ok"}'']\<rparr>\<close>

definition stub_endpoint :: "request \<Rightarrow> state \<Rightarrow> (exn + response) \<times> state" where
  "stub_endpoint req st = (Inr ok_response, st)"


definition undecodable_request :: request where
  "undecodable_request =
     \<lparr>req_method = ''GET'', req_path = ''/api/tools'', req_headers = [],
      receive = [[CHR 0xFF]]\<rparr>"





text \<open>
  The round trip of the specification: the body \<open>{"arguments": {"query": "index=main"}}\<close>,
  an environment whose \<open>json.loads\<close> parses it, the request that posts it to the tool route
  for \<open>search\<close>, and the same request sent to \<open>/tools/search\<close>.
\<close>

definition search_body :: bytes where
  \<open>search_body = ''{"arguments": {"query": "index=main"}}''\<close>

definition search_env :: env where
  "search_env =
     (stub_env \<lparr>status_code = 200, resp_content = ''{}'', resp_text = ''{}''\<rparr> (Inr (JObj [])))
       \<lparr>json_loads := (\<lambda>b. if b = search_body
                              then Inr (JObj [(''arguments'', JObj [(''query'', JStr ''index=main'')])])
                              else if b = ''{}'' then Inr (JObj [])
                              else Inl JSONDecodeError)\<rparr>"

definition search_request :: request where
  "search_request =
     \<lparr>req_method = ''POST'', req_path = ''/api/tools/search'',
      req_headers = [(''content-type'', ''application/json'')],
      receive = [search_body]\<rparr>"

definition spec_search_request :: request where
  "spec_search_request = search_request\<lparr>req_path := ''/tools/search''\<rparr>"

section \<open>Theorems\<close>

subsection \<open>Auxiliary facts about the call primitive\<close>

lemma send_request_reply:
  assumes "ensure_client ev cfg st = (Inr (), st1)" and "http_client st1 = Some c"
    and "post ev c (payload_of m p i) = Inr response"
  shows "send_request ev cfg m p i st =
           ((case parse_result ev cfg response of
               Inl e \<Rightarrow> Inl e
             | Inr result \<Rightarrow>
                 (case raise_for_status response of
                    Inl e \<Rightarrow> Inl e
                  | Inr u \<Rightarrow> unwrap_result ev result)),
            st1\<lparr>posted := posted st1 @ [payload_of m p i]\<rparr>)"
  using assms by (simp add: send_request_def Let_def split: sum.splits)

lemma send_request_posted:
  assumes "ensure_client ev cfg st = (Inr (), st1)" and "http_client st1 = Some c"
  shows "snd (send_request ev cfg m p i st) = st1\<lparr>posted := posted st1 @ [payload_of m p i]\<rparr>"
  using assms by (simp add: send_request_def Let_def split: sum.splits)

lemma ensure_client_cases:
  "ensure_client ev cfg st = (r, st1) \<Longrightarrow>
     posted st1 = posted st \<and> buffered st1 = buffered st \<and>
     (case r of Inl e \<Rightarrow> st1 = st | Inr u \<Rightarrow> http_client st1 \<noteq> None)"
  by (auto simp: ensure_client_def connect_def Let_def split: if_splits option.splits)

lemma execute_tool_failure:
  assumes "call_tool ev cfg n (JObj (arguments rq)) st = (Inl e, st1)"
  shows "execute_tool ev cfg n rq st =
           (Inl (HTTPException 502 (''Failed to execute tool on MCP server: '' @ str_exc ev e)), st1)"
  using assms by (simp add: execute_tool_def execute_tool_body_def HTTP_502_BAD_GATEWAY_def)

lemma unwrap_error:
  assumes "map_of kvs ''error'' = Some err"
  shows "unwrap_result ev (JObj kvs) = Inl (PyException (''MCP error: '' @ py_str ev err))"
proof -
  have "''error'' \<in> fst ` set kvs"
    using assms by (metis map_of_eq_None_iff option.distinct(1))
  then show ?thesis using assms by (simp add: unwrap_result_def)
qed

lemma unwrap_no_error:
  assumes "map_of kvs ''error'' = None"
  shows "unwrap_result ev (JObj kvs) =
           Inr (case map_of kvs ''result'' of Some v \<Rightarrow> v | None \<Rightarrow> JObj [])"
proof -
  have "''error'' \<notin> fst ` set kvs"
    using assms by (simp add: map_of_eq_None_iff)
  then show ?thesis by (simp add: unwrap_result_def)
qed


text \<open>The handlers: the state they leave, the route's path, and their successful returns.\<close>

lemma execute_tool_state:
  "snd (execute_tool ev cfg n rq st) = snd (call_tool ev cfg n (JObj (arguments rq)) st)"
  by (simp add: execute_tool_def execute_tool_body_def split: prod.splits sum.splits)

lemma match_execute_tool_segment:
  "n \<noteq> [] \<Longrightarrow> CHR ''/'' \<notin> set n \<Longrightarrow> match_execute_tool (''/api/tools/'' @ n) = Some n"
  by (simp add: match_execute_tool_def tools_prefix_def Let_def)

lemma execute_tool_success:
  assumes "call_tool ev cfg n (JObj (arguments rq)) st = (Inr (JObj r), st1)"
    and "new_ToolExecutionResponse ev
           (case map_of r ''content'' of Some v \<Rightarrow> v | None \<Rightarrow> JList [])
           (case map_of r ''isError'' of Some v \<Rightarrow> v | None \<Rightarrow> JBool False) = Inr x"
  shows "execute_tool ev cfg n rq st = (Inr x, st1)"
  using assms by (simp add: execute_tool_def execute_tool_body_def)

lemma read_resource_route_success:
  assumes "read_resource ev cfg uri st = (Inr (JObj r), st1)"
    and "new_ResourceReadResponse ev
           (case map_of r ''contents'' of Some v \<Rightarrow> v | None \<Rightarrow> JList []) = Inr x"
  shows "read_resource_route ev cfg uri st = (Inr x, st1)"
  using assms by (simp add: read_resource_route_def)

text \<open>The interceptor when it is off, and when it is on and both log lines can be formatted.\<close>

lemma dispatch_disabled:
  "\<not> bridge_log_payloads cfg \<Longrightarrow> dispatch ev cfg call_next req st = call_next req st"
  by (simp add: dispatch_def)

lemma dispatch_enabled:
  assumes "bridge_log_payloads cfg"
    and "log_format ev (concat (receive req)) = Inr ()"
    and "call_next (req\<lparr>receive := [concat (receive req)]\<rparr>)
           (st\<lparr>buffered := buffered st @ [concat (receive req)]\<rparr>) = (Inr resp, st2)"
    and "log_format ev (concat (body_iterator resp)) = Inr ()"
  shows "dispatch ev cfg call_next req st =
           (Inr (resp\<lparr>body_iterator := [concat (body_iterator resp)]\<rparr>),
            st2\<lparr>buffered := buffered st2 @ [concat (body_iterator resp)]\<rparr>)"
  using assms by (simp add: dispatch_def Let_def)






text \<open>A request to the tool route that the gate does not admit changes nothing and fails.\<close>

lemma route_execute_tool_rejected:
  assumes "\<not> admitted cfg (api_key_header req)"
    and "route_execute_tool ev cfg req st = Some (r, st2)"
  shows "st2 = st \<and> (\<exists>e. r = Inl e)"
proof -
  have g: "\<exists>e. get_api_key cfg (api_key_header req) = Inl e"
    using assms(1) by (auto simp: admitted_def split: sum.splits)
  show ?thesis
    using assms(2) g
    by (auto simp: route_execute_tool_def gated_route_def split: if_splits option.splits sum.splits)
qed

text \<open>The definitions that a concrete exchange with the test double unfolds.\<close>

lemmas stub_run =
  send_request_def ensure_client_def connect_def MCPClient_init_def default_settings_def
  stub_env_def parse_result_def raise_for_status_def is_success_def Let_def


subsection \<open>The claims\<close>

text \<open>
  C1. The auth gate admits a request if and only if no API key is configured or the supplied
  \<open>X-API-Key\<close> value equals the configured secret; every rejection is the failure with status
  403 and the detail \<open>Could not validate credentials\<close>, and nothing else.
\<close>

theorem C1_auth_gate:
  "(admitted cfg h = (no_key_configured cfg \<or> h = bridge_api_key cfg)) \<and>
   (admitted cfg h \<or> get_api_key cfg h = Inl (HTTPException 403 ''Could not validate credentials''))"
  by (cases "bridge_api_key cfg")
     (auto simp: admitted_def get_api_key_def no_key_configured_def HTTP_403_FORBIDDEN_def)

theorem C1_auth_gate_witness:
  "\<not> admitted (default_settings\<lparr>bridge_api_key := Some ''s3cret''\<rparr>) (Some ''guess'') \<and>
   get_api_key (default_settings\<lparr>bridge_api_key := Some ''s3cret''\<rparr>) (Some ''guess'')
     = Inl (HTTPException 403 ''Could not validate credentials'') \<and>
   admitted (default_settings\<lparr>bridge_api_key := Some ''s3cret''\<rparr>) (Some ''s3cret'') \<and>
   admitted default_settings None"
  using C1_auth_gate [of "default_settings\<lparr>bridge_api_key := Some ''s3cret''\<rparr>" "Some ''guess''"]
    C1_auth_gate [of "default_settings\<lparr>bridge_api_key := Some ''s3cret''\<rparr>" "Some ''s3cret''"]
    C1_auth_gate [of default_settings None]
  by (auto simp: no_key_configured_def default_settings_def)

text \<open>
  C7. The health endpoint never raises: whatever the live \<open>tools/list\<close> call does, it returns a
  payload, the healthy one when the call returns and otherwise the degraded one, which holds
  the failure as the string \<open>str(e)\<close>.
\<close>

theorem C7_health_never_raises:
  "(\<exists>payload. fst (health_check ev cfg st) = Inr payload) \<and>
   fst (health_check ev cfg st) =
     (case fst (list_tools ev cfg st) of
        Inr tools \<Rightarrow>
          Inr (JObj [(''status'', JStr ''healthy''), (''mcp_connection'', JStr ''connected'')])
      | Inl e \<Rightarrow>
          Inr (JObj [(''status'', JStr ''degraded''), (''mcp_connection'', JStr ''disconnected''),
                     (''error'', JStr (str_exc ev e))]))"
  by (cases "list_tools ev cfg st"; cases "fst (list_tools ev cfg st)")
     (auto simp: health_check_def)

text \<open>
  C9. A call made while no connection context exists (before \<open>connect\<close>, or after
  \<open>disconnect\<close>) establishes one first: when constructing the client succeeds, the call does
  exactly what the same call does after an explicit \<open>connect\<close>, it leaves the client connected,
  and it sends its request.
\<close>

theorem C9_lazy_connect:
  assumes "http_client st = None" and "connect ev cfg st = (Inr (), st1)"
  shows "send_request ev cfg m p i st = send_request ev cfg m p i st1 \<and>
         http_client st1 \<noteq> None \<and>
         http_client (snd (send_request ev cfg m p i st)) = http_client st1 \<and>
         posted (snd (send_request ev cfg m p i st)) = posted st @ [payload_of m p i]"
proof -
  from assms obtain c where c: "http_client st1 = Some c" and p: "posted st1 = posted st"
    by (auto simp: connect_def Let_def split: option.splits)
  have e0: "ensure_client ev cfg st = (Inr (), st1)"
    using assms by (simp add: ensure_client_def)
  have e1: "ensure_client ev cfg st1 = (Inr (), st1)"
    using c by (simp add: ensure_client_def)
  have "send_request ev cfg m p i st = send_request ev cfg m p i st1"
    by (simp add: send_request_def e0 e1)
  moreover have "snd (send_request ev cfg m p i st) = st1\<lparr>posted := posted st1 @ [payload_of m p i]\<rparr>"
    using e0 c by (rule send_request_posted)
  ultimately show ?thesis using c p by simp
qed


theorem C9_lazy_connect_witness:
  "http_client (MCPClient_init default_settings) = None \<and>
   send_request (stub_env \<lparr>status_code = 200, resp_content = ''{}'', resp_text = ''{}''\<rparr> (Inr (JObj [])))
       default_settings ''tools/list'' (JObj []) 1 (MCPClient_init default_settings)
     = send_request (stub_env \<lparr>status_code = 200, resp_content = ''{}'', resp_text = ''{}''\<rparr> (Inr (JObj [])))
         default_settings ''tools/list'' (JObj []) 1
         (snd (connect (stub_env \<lparr>status_code = 200, resp_content = ''{}'', resp_text = ''{}''\<rparr> (Inr (JObj [])))
                 default_settings (MCPClient_init default_settings))) \<and>
   posted (snd (send_request (stub_env \<lparr>status_code = 200, resp_content = ''{}'', resp_text = ''{}''\<rparr> (Inr (JObj [])))
       default_settings ''tools/list'' (JObj []) 1 (MCPClient_init default_settings)))
     = [payload_of ''tools/list'' (JObj []) 1]"
proof -
  let ?ev = "stub_env \<lparr>status_code = 200, resp_content = ''{}'', resp_text = ''{}''\<rparr> (Inr (JObj []))"
  let ?st = "MCPClient_init default_settings"
  have h1: "http_client ?st = None" by (simp add: MCPClient_init_def)
  have h2: "connect ?ev default_settings ?st = (Inr (), snd (connect ?ev default_settings ?st))"
    by (simp add: connect_def stub_env_def Let_def)
  have h3: "posted ?st = []" by (simp add: MCPClient_init_def)
  note r = C9_lazy_connect [OF h1 h2, of "''tools/list''" "JObj []" 1]
  from r have a: "send_request ?ev default_settings ''tools/list'' (JObj []) 1 ?st =
      send_request ?ev default_settings ''tools/list'' (JObj []) 1
        (snd (connect ?ev default_settings ?st))"
    by (rule conjunct1)
  from r have b: "posted (snd (send_request ?ev default_settings ''tools/list'' (JObj []) 1 ?st))
      = posted ?st @ [payload_of ''tools/list'' (JObj []) 1]"
    by blast
  show ?thesis
    by (intro conjI) (rule h1, rule a, simp only: b h3 append_Nil)
qed

text \<open>
  C2, as stated, fails: \<open>raise_for_status\<close> runs before the \<open>error\<close> test, so a reply with a
  failure status and an \<open>error\<close> key raises the transport failure \<open>HTTPStatusError\<close>, not the
  protocol failure that carries the error object.
\<close>

theorem C2_counterexample:
  "fst (send_request
          (stub_env \<lparr>status_code = 500, resp_content = method_not_found_text,
                      resp_text = method_not_found_text\<rparr> (Inr method_not_found))
          default_settings ''tools/call''
          (JObj [(''name'', JStr ''search''), (''arguments'', JObj [])]) 2
          (MCPClient_init default_settings))
     = Inl (HTTPStatusError 500 method_not_found_text) \<and>
   (\<forall>msg. fst (send_request
          (stub_env \<lparr>status_code = 500, resp_content = method_not_found_text,
                      resp_text = method_not_found_text\<rparr> (Inr method_not_found))
          default_settings ''tools/call''
          (JObj [(''name'', JStr ''search''), (''arguments'', JObj [])]) 2
          (MCPClient_init default_settings))
     \<noteq> Inl (PyException msg))"
  by (simp add: stub_run)

text \<open>
  C2, amended. A reply whose parsed body is a mapping with an \<open>error\<close> key always makes
  \<open>_send_request\<close> fail, whatever the status: with a 2xx status it raises the protocol failure
  whose message carries the error object, with any other status the transport failure of
  \<open>raise_for_status\<close>. In both cases \<open>execute_tool\<close> reports the 502 failure, never a success.
\<close>

theorem C2_error_reply_fails:
  assumes "ensure_client ev cfg st = (Inr (), st1)" and "http_client st1 = Some c"
    and "\<And>payload. post ev c payload = Inr response"
    and "json_loads ev (resp_content response) = Inr (JObj kvs)"
    and "map_of kvs ''error'' = Some err"
  shows "fst (send_request ev cfg m p i st) =
           (if is_success (status_code response)
            then Inl (PyException (''MCP error: '' @ py_str ev err))
            else Inl (HTTPStatusError (status_code response) (resp_text response))) \<and>
         fst (execute_tool ev cfg tool_name rq st) =
           Inl (HTTPException 502
                  (''Failed to execute tool on MCP server: '' @
                   (if is_success (status_code response)
                    then ''MCP error: '' @ py_str ev err
                    else exc_str ev (HTTPStatusError (status_code response) (resp_text response)))))"
proof -
  have pr: "parse_result ev cfg response = Inr (JObj kvs)"
    using assms(4) by (simp add: parse_result_def)
  have sr: "\<And>m p i. fst (send_request ev cfg m p i st) =
           (if is_success (status_code response)
            then Inl (PyException (''MCP error: '' @ py_str ev err))
            else Inl (HTTPStatusError (status_code response) (resp_text response)))"
    using send_request_reply [OF assms(1) assms(2) assms(3)] pr unwrap_error [OF assms(5)]
    by (simp add: raise_for_status_def)
  obtain e st2 where ct: "call_tool ev cfg tool_name (JObj (arguments rq)) st = (Inl e, st2)"
    and e: "e = (if is_success (status_code response)
            then PyException (''MCP error: '' @ py_str ev err)
            else HTTPStatusError (status_code response) (resp_text response))"
    using sr [of "''tools/call''" "JObj [(''name'', JStr tool_name), (''arguments'', JObj (arguments rq))]" 2]
    by (cases "call_tool ev cfg tool_name (JObj (arguments rq)) st")
       (auto simp: call_tool_def split: if_splits)
  show ?thesis
    using sr execute_tool_failure [OF ct] e by simp
qed


theorem C2_error_reply_fails_witness:
  "fst (send_request
          (stub_env \<lparr>status_code = 200, resp_content = method_not_found_text,
                      resp_text = method_not_found_text\<rparr> (Inr method_not_found))
          default_settings ''tools/call''
          (JObj [(''name'', JStr ''search''), (''arguments'', JObj [])]) 2
          (MCPClient_init default_settings))
     = Inl (PyException ''MCP error: <value>'') \<and>
   fst (execute_tool
          (stub_env \<lparr>status_code = 200, resp_content = method_not_found_text,
                      resp_text = method_not_found_text\<rparr> (Inr method_not_found))
          default_settings ''search'' \<lparr>arguments = []\<rparr> (MCPClient_init default_settings))
     = Inl (HTTPException 502 ''Failed to execute tool on MCP server: MCP error: <value>'')"
proof -
  let ?r = "\<lparr>status_code = 200, resp_content = method_not_found_text,
             resp_text = method_not_found_text\<rparr>"
  let ?ev = "stub_env ?r (Inr method_not_found)"
  let ?st = "MCPClient_init default_settings"
  let ?c = "\<lparr>base_url = ''http://localhost:3001/mcp'', client_timeout = 30,
             client_headers = [], verify = True\<rparr>"
  have h1: "ensure_client ?ev default_settings ?st = (Inr (), ?st\<lparr>http_client := Some ?c\<rparr>)"
    by (simp add: stub_run)
  have h2: "http_client (?st\<lparr>http_client := Some ?c\<rparr>) = Some ?c" by simp
  have h3: "\<And>payload. post ?ev ?c payload = Inr ?r" by (simp add: stub_env_def)
  have h4: "json_loads ?ev (resp_content ?r) =
      Inr (JObj [(''error'', JObj [(''code'', JInt (- 32601)), (''message'', JStr ''method not found'')])])"
    by (simp add: stub_env_def method_not_found_def)
  have h5: "map_of [(''error'', JObj [(''code'', JInt (- 32601)), (''message'', JStr ''method not found'')])]
      ''error'' = Some (JObj [(''code'', JInt (- 32601)), (''message'', JStr ''method not found'')])"
    by simp
  have s: "is_success (status_code ?r)" by (simp add: is_success_def)
  have y: "py_str ?ev (JObj [(''code'', JInt (- 32601)), (''message'', JStr ''method not found'')]) = ''<value>''"
    by (simp add: stub_env_def)
  show ?thesis
    using C2_error_reply_fails [OF h1 h2 h3 h4 h5,
        of "''tools/call''" "JObj [(''name'', JStr ''search''), (''arguments'', JObj [])]" 2
           "''search''" "\<lparr>arguments = []\<rparr>"]
    by (simp only: s y if_True) simp
qed

text \<open>
  C3. With payload logging off (the default), a reply whose body is not JSON makes
  \<open>response.json()\<close> raise out of \<open>_send_request\<close>: no error result is synthesized and the raw
  text is not kept. The synthesized mapping with the raw text exists only with logging on.
\<close>

theorem C3_bare_parse_raises:
  "parse_result
     (stub_env \<lparr>status_code = 200, resp_content = html_text, resp_text = html_text\<rparr>
        (Inl JSONDecodeError))
     default_settings
     \<lparr>status_code = 200, resp_content = html_text, resp_text = html_text\<rparr>
     = Inl JSONDecodeError \<and>
   fst (send_request
          (stub_env \<lparr>status_code = 200, resp_content = html_text, resp_text = html_text\<rparr>
             (Inl JSONDecodeError))
          default_settings ''tools/list'' (JObj []) 1 (MCPClient_init default_settings))
     = Inl JSONDecodeError \<and>
   parse_result
     (stub_env \<lparr>status_code = 200, resp_content = html_text, resp_text = html_text\<rparr>
        (Inl JSONDecodeError))
     logging_on
     \<lparr>status_code = 200, resp_content = html_text, resp_text = html_text\<rparr>
     = Inr (JObj [(''error'', JStr ''Non-JSON response from Splunk''), (''raw'', JStr html_text)])"
  by (simp add: stub_run logging_on_def)

text \<open>
  C4. With payload logging off, a reply with a failure status and a body that is not JSON
  never reaches the status check: the parse failure leaves \<open>_send_request\<close> first, and the
  failure carries neither status nor body. With logging on the same reply raises the
  transport failure with status and body.
\<close>

theorem C4_status_check_not_reached:
  "fst (send_request
          (stub_env \<lparr>status_code = 502, resp_content = html_text, resp_text = html_text\<rparr>
             (Inl JSONDecodeError))
          default_settings ''tools/list'' (JObj []) 1 (MCPClient_init default_settings))
     = Inl JSONDecodeError \<and>
   fst (send_request
          (stub_env \<lparr>status_code = 502, resp_content = html_text, resp_text = html_text\<rparr>
             (Inl JSONDecodeError))
          logging_on ''tools/list'' (JObj []) 1 (MCPClient_init logging_on))
     = Inl (HTTPStatusError 502 html_text)"
  by (simp add: stub_run logging_on_def)

text \<open>
  C5. With auditing on, a request whose body does not decode (the single byte \<open>0xFF\<close>) makes
  \<open>json.loads\<close> raise \<open>UnicodeDecodeError\<close>, which the \<open>except json.JSONDecodeError\<close> clause does
  not catch: \<open>dispatch\<close> raises before \<open>call_next\<close>, the handler never sees the body and the
  caller never gets the handler's response. With auditing off the same request is answered by
  the handler.
\<close>

theorem C5_undecodable_body_aborts:
  "dispatch (stub_env \<lparr>status_code = 200, resp_content = ''{}'', resp_text = ''{}''\<rparr> (Inr (JObj [])))
       logging_on stub_endpoint undecodable_request (MCPClient_init logging_on)
     = (Inl UnicodeDecodeError, (MCPClient_init logging_on)\<lparr>buffered := [[CHR 0xFF]]\<rparr>) \<and>
   dispatch (stub_env \<lparr>status_code = 200, resp_content = ''{}'', resp_text = ''{}''\<rparr> (Inr (JObj [])))
       default_settings stub_endpoint undecodable_request (MCPClient_init default_settings)
     = (Inr ok_response, MCPClient_init default_settings)"
  by (simp add: dispatch_def log_format_def stub_env_def logging_on_def default_settings_def
        undecodable_request_def stub_endpoint_def MCPClient_init_def Let_def)





text \<open>
  C6, as stated, fails on its example: the tool route is mounted under the prefix
  \<open>/api/tools\<close>, so a POST to \<open>/tools/search\<close> matches no route and nothing of the route runs.
\<close>

theorem C6_counterexample:
  "route_execute_tool search_env default_settings spec_search_request
     (MCPClient_init default_settings) = None"
  by (simp add: route_execute_tool_def match_execute_tool_def tools_prefix_def Let_def
        spec_search_request_def search_request_def)

text \<open>
  C6, amended. For every tool name that is one non-empty path segment and every argument
  mapping, a POST of the JSON body \<open>{"arguments": A}\<close> to \<open>/api/tools/<name>\<close> that the auth gate
  admits makes the client, once its connection context exists or has been established, send
  the envelope with \<open>jsonrpc\<close> 2.0, id 2, method \<open>tools/call\<close> and params
  \<open>{"name": <name>, "arguments": A}\<close>.
\<close>

theorem C6_tool_call_envelope:
  assumes "tool_name \<noteq> []" and "CHR ''/'' \<notin> set tool_name"
    and "req_method req = ''POST''" and "req_path req = ''/api/tools/'' @ tool_name"
    and "parse_request_body ev req = Inr (JsonBody (JObj [(''arguments'', JObj A)]))"
    and "admitted cfg (api_key_header req)"
    and "ensure_client ev cfg st = (Inr (), st1)"
  shows "\<exists>r st2. route_execute_tool ev cfg req st = Some (r, st2) \<and>
           posted st2 = posted st @
             [JObj [(''jsonrpc'', JStr ''2.0''), (''id'', JInt 2), (''method'', JStr ''tools/call''),
                    (''params'', JObj [(''name'', JStr tool_name), (''arguments'', JObj A)])]]"
proof -
  from ensure_client_cases [OF assms(7)]
  obtain c where c: "http_client st1 = Some c" and p: "posted st1 = posted st"
    by auto
  have "snd (execute_tool ev cfg tool_name \<lparr>arguments = A\<rparr> st)
          = st1\<lparr>posted := posted st1 @
               [payload_of ''tools/call'' (JObj [(''name'', JStr tool_name), (''arguments'', JObj A)]) 2]\<rparr>"
    using send_request_posted [OF assms(7) c] by (simp add: execute_tool_state call_tool_def)
  then have e: "posted (snd (execute_tool ev cfg tool_name \<lparr>arguments = A\<rparr> st))
          = posted st @
               [payload_of ''tools/call'' (JObj [(''name'', JStr tool_name), (''arguments'', JObj A)]) 2]"
    using p by simp
  obtain k where k: "get_api_key cfg (api_key_header req) = Inr k"
    using assms(6) by (auto simp: admitted_def split: sum.splits)
  have "route_execute_tool ev cfg req st
          = Some (execute_tool ev cfg tool_name \<lparr>arguments = A\<rparr> st)"
    using match_execute_tool_segment [OF assms(1) assms(2)] assms(3) assms(4) assms(5) k
    by (simp add: route_execute_tool_def gated_route_def)
  then show ?thesis
    using e by (cases "execute_tool ev cfg tool_name \<lparr>arguments = A\<rparr> st")
       (simp add: payload_of_def)
qed

theorem C6_tool_call_envelope_witness:
  "map_option (posted \<circ> snd)
     (route_execute_tool search_env default_settings search_request
        (MCPClient_init default_settings))
   = Some [JObj [(''jsonrpc'', JStr ''2.0''), (''id'', JInt 2), (''method'', JStr ''tools/call''),
                 (''params'', JObj [(''name'', JStr ''search''),
                                    (''arguments'', JObj [(''query'', JStr ''index=main'')])])]]"
proof -
  let ?st = "MCPClient_init default_settings"
  have h1: "''search'' \<noteq> []" by simp
  have h2: "CHR ''/'' \<notin> set ''search''" by simp
  have h3: "req_method search_request = ''POST''" by (simp add: search_request_def)
  have h4: "req_path search_request = ''/api/tools/'' @ ''search''" by (simp add: search_request_def)
  have h5: "parse_request_body search_env search_request
              = Inr (JsonBody (JObj [(''arguments'', JObj [(''query'', JStr ''index=main'')])]))"
    by (simp add: parse_request_body_def search_request_def search_env_def stub_env_def
          search_body_def Let_def)
  have h6: "admitted default_settings (api_key_header search_request)"
    by (simp add: admitted_def get_api_key_def default_settings_def Let_def)
  have h7: "ensure_client search_env default_settings ?st
              = (Inr (), snd (ensure_client search_env default_settings ?st))"
    by (simp add: search_env_def stub_run)
  have p: "posted ?st = []" by (simp add: MCPClient_init_def)
  show ?thesis
    using C6_tool_call_envelope [OF h1 h2 h3 h4 h5 h6 h7] p
    by auto
qed


text \<open>
  C10. A successful reply (2xx, a mapping without \<open>error\<close>) whose result is sparse produces no
  failure: \<open>_send_request\<close> returns the \<open>result\<close> field, the empty mapping when the field is
  absent; \<open>execute_tool\<close> answers with \<open>content = []\<close> and \<open>isError = False\<close> for the absent keys;
  \<open>read_resource\<close> answers with \<open>contents = []\<close> when that key is absent.
\<close>

theorem C10_sparse_success_defaults:
  assumes "ensure_client ev cfg st = (Inr (), st1)" and "http_client st1 = Some c"
    and "\<And>payload. post ev c payload = Inr response"
    and "is_success (status_code response)"
    and "json_loads ev (resp_content response) = Inr (JObj kvs)"
    and "map_of kvs ''error'' = None"
    and "(case map_of kvs ''result'' of Some v \<Rightarrow> v | None \<Rightarrow> JObj []) = JObj r"
  shows "fst (send_request ev cfg m p i st) = Inr (JObj r) \<and>
         (map_of kvs ''result'' = None \<longrightarrow> r = []) \<and>
         (map_of r ''content'' = None \<and> map_of r ''isError'' = None \<longrightarrow>
            fst (execute_tool ev cfg tool_name rq st) = Inr \<lparr>content = [], isError = False\<rparr>) \<and>
         (map_of r ''content'' = None \<and> map_of r ''isError'' = Some (JBool b) \<longrightarrow>
            fst (execute_tool ev cfg tool_name rq st) = Inr \<lparr>content = [], isError = b\<rparr>) \<and>
         (map_of r ''content'' = Some (JList xs) \<and> list_all is_dict xs \<and>
          map_of r ''isError'' = None \<longrightarrow>
            fst (execute_tool ev cfg tool_name rq st) = Inr \<lparr>content = xs, isError = False\<rparr>) \<and>
         (map_of r ''contents'' = None \<longrightarrow>
            fst (read_resource_route ev cfg uri st) = Inr \<lparr>contents = []\<rparr>)"
proof -
  have pr: "parse_result ev cfg response = Inr (JObj kvs)"
    using assms(5) by (simp add: parse_result_def)
  have sr: "\<And>m p i. send_request ev cfg m p i st =
              (Inr (JObj r), st1\<lparr>posted := posted st1 @ [payload_of m p i]\<rparr>)"
    using send_request_reply [OF assms(1) assms(2) assms(3)] pr assms(4)
      unwrap_no_error [OF assms(6)] assms(7)
    by (simp add: raise_for_status_def)
  have ct: "\<And>x. new_ToolExecutionResponse ev
           (case map_of r ''content'' of Some v \<Rightarrow> v | None \<Rightarrow> JList [])
           (case map_of r ''isError'' of Some v \<Rightarrow> v | None \<Rightarrow> JBool False) = Inr x
         \<Longrightarrow> fst (execute_tool ev cfg tool_name rq st) = Inr x"
    by (subst execute_tool_success [where r = r]) (simp_all add: call_tool_def sr)
  have rr: "\<And>x. new_ResourceReadResponse ev
           (case map_of r ''contents'' of Some v \<Rightarrow> v | None \<Rightarrow> JList []) = Inr x
         \<Longrightarrow> fst (read_resource_route ev cfg uri st) = Inr x"
    by (subst read_resource_route_success [where r = r]) (simp_all add: read_resource_def sr)
  have a: "fst (send_request ev cfg m p i st) = Inr (JObj r)" by (simp add: sr)
  have b: "map_of kvs ''result'' = None \<longrightarrow> r = []" using assms(7) by auto
  have c1: "map_of r ''content'' = None \<and> map_of r ''isError'' = None \<longrightarrow>
            fst (execute_tool ev cfg tool_name rq st) = Inr \<lparr>content = [], isError = False\<rparr>"
    by (auto intro!: ct simp: new_ToolExecutionResponse_def)
  have c2: "map_of r ''content'' = None \<and> map_of r ''isError'' = Some (JBool b) \<longrightarrow>
            fst (execute_tool ev cfg tool_name rq st) = Inr \<lparr>content = [], isError = b\<rparr>"
    by (auto intro!: ct simp: new_ToolExecutionResponse_def)
  have c3: "map_of r ''content'' = Some (JList xs) \<and> list_all is_dict xs \<and>
          map_of r ''isError'' = None \<longrightarrow>
            fst (execute_tool ev cfg tool_name rq st) = Inr \<lparr>content = xs, isError = False\<rparr>"
    by (auto intro!: ct simp: new_ToolExecutionResponse_def)
  have d: "map_of r ''contents'' = None \<longrightarrow>
            fst (read_resource_route ev cfg uri st) = Inr \<lparr>contents = []\<rparr>"
    by (auto intro!: rr)
  show ?thesis using a b c1 c2 c3 d by blast
qed

theorem C10_sparse_success_defaults_witness:
  "fst (send_request
          (stub_env \<lparr>status_code = 200, resp_content = ''{}'', resp_text = ''{}''\<rparr> (Inr (JObj [])))
          default_settings ''tools/list'' (JObj []) 1 (MCPClient_init default_settings))
     = Inr (JObj []) \<and>
   fst (execute_tool
          (stub_env \<lparr>status_code = 200, resp_content = ''{}'', resp_text = ''{}''\<rparr> (Inr (JObj [])))
          default_settings ''search'' \<lparr>arguments = []\<rparr> (MCPClient_init default_settings))
     = Inr \<lparr>content = [], isError = False\<rparr> \<and>
   fst (read_resource_route
          (stub_env \<lparr>status_code = 200, resp_content = ''{}'', resp_text = ''{}''\<rparr> (Inr (JObj [])))
          default_settings ''splunk://indexes/main'' (MCPClient_init default_settings))
     = Inr \<lparr>contents = []\<rparr>"
proof -
  let ?r = "\<lparr>status_code = 200, resp_content = ''{}'', resp_text = ''{}''\<rparr>"
  let ?ev = "stub_env ?r (Inr (JObj []))"
  let ?st = "MCPClient_init default_settings"
  let ?c = "\<lparr>base_url = ''http://localhost:3001/mcp'', client_timeout = 30,
             client_headers = [], verify = True\<rparr>"
  have h1: "ensure_client ?ev default_settings ?st = (Inr (), ?st\<lparr>http_client := Some ?c\<rparr>)"
    by (simp add: stub_run)
  have h2: "http_client (?st\<lparr>http_client := Some ?c\<rparr>) = Some ?c" by simp
  have h3: "\<And>payload. post ?ev ?c payload = Inr ?r" by (simp add: stub_env_def)
  have h4: "is_success (status_code ?r)" by (simp add: is_success_def)
  have h5: "json_loads ?ev (resp_content ?r) = Inr (JObj [])" by (simp add: stub_env_def)
  have h6: "map_of ([] :: (string \<times> json) list) ''error'' = None" by simp
  have h7: "(case map_of ([] :: (string \<times> json) list) ''result'' of Some v \<Rightarrow> v | None \<Rightarrow> JObj [])
              = JObj []" by simp
  show ?thesis
    using C10_sparse_success_defaults [OF h1 h2 h3 h4 h5 h6 h7,
        of "''tools/list''" "JObj []" 1 "''search''" "\<lparr>arguments = []\<rparr>" False "[]"
           "''splunk://indexes/main''"]
    by simp
qed

end
